theory Spec2Isabelle
  imports Complex_Main
begin

section \<open>Floating-point values of the data frame\<close>

text \<open>
  The columns \<open>interest\<close> and \<open>pct_change\<close> hold Python floats
  (\<open>out["interest"].astype(float)\<close>). A float is modelled as a finite real
  number or one of the three IEEE special values. Finite arithmetic is exact
  in the model (no rounding, no overflow of finite results, no negative
  zero); the special values follow IEEE 754 as numpy implements it: a
  non-zero number divided by zero is an infinity, zero divided by zero is
  NaN, NaN is contagious and every comparison with NaN is false. A finite
  change computed in the model can therefore differ from the code's double in
  the last place; the statements about flags and directions below are about
  the change column of the output, whatever its values are.
\<close>

datatype pyfloat = Num real | PosInf | NegInf | NaN

text \<open>\<open>pd.isna\<close> / \<open>pd.notna\<close> on a float: only NaN is missing.\<close>

definition isna :: "pyfloat \<Rightarrow> bool" where
  "isna x = (x = NaN)"

definition notna :: "pyfloat \<Rightarrow> bool" where
  "notna x = (\<not> isna x)"

text \<open>Float division \<open>a / b\<close> on numpy arrays (no exception, IEEE results).\<close>

fun fdiv :: "pyfloat \<Rightarrow> pyfloat \<Rightarrow> pyfloat" where
  "fdiv NaN b = NaN"
| "fdiv a NaN = NaN"
| "fdiv (Num x) (Num y) =
     (if y \<noteq> 0 then Num (x / y)
      else if 0 < x then PosInf
      else if x < 0 then NegInf
      else NaN)"
| "fdiv (Num x) PosInf = Num 0"
| "fdiv (Num x) NegInf = Num 0"
| "fdiv PosInf (Num y) = (if y < 0 then NegInf else PosInf)"
| "fdiv NegInf (Num y) = (if y < 0 then PosInf else NegInf)"
| "fdiv PosInf PosInf = NaN"
| "fdiv PosInf NegInf = NaN"
| "fdiv NegInf PosInf = NaN"
| "fdiv NegInf NegInf = NaN"

text \<open>Float subtraction \<open>a - b\<close>.\<close>

fun fsub :: "pyfloat \<Rightarrow> pyfloat \<Rightarrow> pyfloat" where
  "fsub NaN b = NaN"
| "fsub a NaN = NaN"
| "fsub (Num x) (Num y) = Num (x - y)"
| "fsub (Num x) PosInf = NegInf"
| "fsub (Num x) NegInf = PosInf"
| "fsub PosInf (Num y) = PosInf"
| "fsub NegInf (Num y) = NegInf"
| "fsub PosInf PosInf = NaN"
| "fsub PosInf NegInf = PosInf"
| "fsub NegInf PosInf = NegInf"
| "fsub NegInf NegInf = NaN"

text \<open>\<open>Series.abs()\<close> elementwise.\<close>

fun fabs :: "pyfloat \<Rightarrow> pyfloat" where
  "fabs (Num x) = Num \<bar>x\<bar>"
| "fabs PosInf = PosInf"
| "fabs NegInf = PosInf"
| "fabs NaN = NaN"

text \<open>The comparisons \<open>a >= b\<close>, \<open>a > b\<close> and \<open>a < b\<close>; false when NaN is involved.\<close>

fun fge :: "pyfloat \<Rightarrow> pyfloat \<Rightarrow> bool" where
  "fge NaN b = False"
| "fge a NaN = False"
| "fge (Num x) (Num y) = (y \<le> x)"
| "fge (Num x) PosInf = False"
| "fge (Num x) NegInf = True"
| "fge PosInf b = True"
| "fge NegInf (Num y) = False"
| "fge NegInf PosInf = False"
| "fge NegInf NegInf = True"

fun fgt :: "pyfloat \<Rightarrow> pyfloat \<Rightarrow> bool" where
  "fgt NaN b = False"
| "fgt a NaN = False"
| "fgt (Num x) (Num y) = (y < x)"
| "fgt (Num x) PosInf = False"
| "fgt (Num x) NegInf = True"
| "fgt PosInf (Num y) = True"
| "fgt PosInf PosInf = False"
| "fgt PosInf NegInf = True"
| "fgt NegInf b = False"

definition flt :: "pyfloat \<Rightarrow> pyfloat \<Rightarrow> bool" where
  "flt a b = fgt b a"

section \<open>The data frame\<close>

text \<open>
  A calendar date (\<open>datetime.date\<close>; the \<open>date\<close> column holds
  timestamps without a timezone, which the caller converts with \<open>.date()\<close>).
\<close>

record pydate =
  year :: nat
  month :: nat
  day :: nat

text \<open>
  A row of the frame returned by \<open>fetch_trends_2023_us\<close> (columns
  \<open>date\<close>, \<open>interest\<close>) and a row of the frame returned by
  \<open>compute_anomalies\<close>, which adds the columns \<open>pct_change\<close>,
  \<open>is_anomaly\<close> and \<open>direction\<close>. The direction is the Python string
  \<open>"spiked"\<close> or \<open>"dropped"\<close>, or \<open>None\<close>.
\<close>

record obs =
  date :: pydate
  interest :: pyfloat

record annotated = obs +
  pct_change :: pyfloat
  is_anomaly :: bool
  direction :: "string option"

section \<open>\<open>Series.pct_change()\<close>\<close>

text \<open>
  pandas computes \<open>pct_change()\<close> as \<open>data / data.shift(1) - 1\<close>, where
  \<open>data\<close> is the series itself or, with the default \<open>fill_method='pad'\<close> of
  pandas 1.x and 2.x, the series with every NaN replaced by the last valid
  value before it. Which of the two applies depends on the installed pandas,
  so the model takes it as the flag \<open>pad\<close>. No zero is replaced by NaN
  before the division.
\<close>

fun ffill :: "pyfloat \<Rightarrow> pyfloat list \<Rightarrow> pyfloat list" where
  "ffill prev [] = []"
| "ffill prev (x # xs) = (if isna x then prev # ffill prev xs else x # ffill x xs)"

definition shift1 :: "pyfloat list \<Rightarrow> pyfloat list" where
  "shift1 xs = (if xs = [] then [] else NaN # butlast xs)"

definition pct_change_series :: "bool \<Rightarrow> pyfloat list \<Rightarrow> pyfloat list" where
  "pct_change_series pad xs =
     (let data = (if pad then ffill NaN xs else xs)
      in map2 (\<lambda>a b. fsub (fdiv a b) (Num 1)) data (shift1 data))"

section \<open>\<open>compute_anomalies\<close>\<close>

text \<open>
  The lambda applied to the \<open>pct_change\<close> column:
  \<open>"spiked" if pd.notna(x) and x > 0 else ("dropped" if pd.notna(x) and x < 0 else None)\<close>.
\<close>

definition direction_of :: "pyfloat \<Rightarrow> string option" where
  "direction_of x =
     (if notna x \<and> fgt x (Num 0) then Some ''spiked''
      else if notna x \<and> flt x (Num 0) then Some ''dropped''
      else None)"

text \<open>
  \<open>compute_anomalies(df, change_threshold)\<close>: an empty frame gets the three
  columns and no rows; otherwise \<open>pct = interest.pct_change()\<close>,
  \<open>is_anomaly = pct.abs() >= change_threshold\<close>, and the direction from
  \<open>pct\<close>.
\<close>

definition annotate_row :: "pyfloat \<Rightarrow> obs \<Rightarrow> pyfloat \<Rightarrow> annotated" where
  "annotate_row change_threshold r x =
     \<lparr> date = date r, interest = interest r,
       pct_change = x,
       is_anomaly = fge (fabs x) change_threshold,
       direction = direction_of x \<rparr>"

definition compute_anomalies :: "bool \<Rightarrow> obs list \<Rightarrow> pyfloat \<Rightarrow> annotated list" where
  "compute_anomalies pad df change_threshold =
     (if df = [] then []
      else
        let pct = pct_change_series pad (map interest df)
        in map2 (annotate_row change_threshold) df pct)"

text \<open>The projection of an annotated frame back to the columns \<open>date\<close>, \<open>interest\<close>.\<close>

definition project :: "annotated list \<Rightarrow> obs list" where
  "project out = map (\<lambda>r. \<lparr> date = date r, interest = interest r \<rparr>) out"

text \<open>
  The series of the specification's example: the values
  \<open>[100, 135, 90, 90, 0, 50]\<close> on six consecutive Sundays.
\<close>

definition weekly_example :: "obs list" where
  "weekly_example =
     [\<lparr> date = \<lparr>year = 2023, month = 1, day = 1\<rparr>, interest = Num 100 \<rparr>,
      \<lparr> date = \<lparr>year = 2023, month = 1, day = 8\<rparr>, interest = Num 135 \<rparr>,
      \<lparr> date = \<lparr>year = 2023, month = 1, day = 15\<rparr>, interest = Num 90 \<rparr>,
      \<lparr> date = \<lparr>year = 2023, month = 1, day = 22\<rparr>, interest = Num 90 \<rparr>,
      \<lparr> date = \<lparr>year = 2023, month = 1, day = 29\<rparr>, interest = Num 0 \<rparr>,
      \<lparr> date = \<lparr>year = 2023, month = 2, day = 5\<rparr>, interest = Num 50 \<rparr>]"

text \<open>
  A series whose changes sit on the threshold: \<open>100 \<rightarrow> 130\<close> is exactly
  \<open>+0.30\<close>, \<open>130 \<rightarrow> 91\<close> is exactly \<open>-0.30\<close>, and \<open>91 \<rightarrow> 118\<close> is
  \<open>27/91\<close>, just below \<open>0.30\<close>.
\<close>

definition boundary_example :: "obs list" where
  "boundary_example =
     [\<lparr> date = \<lparr>year = 2023, month = 3, day = 5\<rparr>, interest = Num 100 \<rparr>,
      \<lparr> date = \<lparr>year = 2023, month = 3, day = 12\<rparr>, interest = Num 130 \<rparr>,
      \<lparr> date = \<lparr>year = 2023, month = 3, day = 19\<rparr>, interest = Num 91 \<rparr>,
      \<lparr> date = \<lparr>year = 2023, month = 3, day = 26\<rparr>, interest = Num 118 \<rparr>]"

section \<open>Strings\<close>

text \<open>
  A Python \<open>str\<close> is modelled as the byte sequence of its UTF-8 encoding.
  Substring tests agree with Python's on code points, since UTF-8 is
  self-synchronising. \<open>starts_with p s\<close> is \<open>s.startswith(p)\<close> and
  \<open>contains_str sub s\<close> is \<open>sub in s\<close>.
\<close>

fun starts_with :: "string \<Rightarrow> string \<Rightarrow> bool" where
  "starts_with [] s = True"
| "starts_with (p # ps) [] = False"
| "starts_with (p # ps) (c # cs) = (p = c \<and> starts_with ps cs)"

fun contains_str :: "string \<Rightarrow> string \<Rightarrow> bool" where
  "contains_str sub [] = (sub = [])"
| "contains_str sub (c # cs) = (starts_with sub (c # cs) \<or> contains_str sub cs)"

text \<open>
  \<open>str.strip()\<close> removes leading and trailing whitespace. \<open>whitespace\<close>
  lists the UTF-8 encodings of the code points for which \<open>str.isspace()\<close>
  holds: U+0009 to U+000D, U+001C to U+0020, U+0085, U+00A0, U+1680,
  U+2000 to U+200A, U+2028, U+2029, U+202F, U+205F and U+3000.
\<close>

definition whitespace :: "string list" where
  "whitespace =
     map (\<lambda>c. [c])
       [CHR 0x09, CHR 0x0A, CHR 0x0B, CHR 0x0C, CHR 0x0D,
        CHR 0x1C, CHR 0x1D, CHR 0x1E, CHR 0x1F, CHR 0x20] @
     [[CHR 0xC2, CHR 0x85], [CHR 0xC2, CHR 0xA0], [CHR 0xE1, CHR 0x9A, CHR 0x80]] @
     map (\<lambda>c. [CHR 0xE2, CHR 0x80, c])
       [CHR 0x80, CHR 0x81, CHR 0x82, CHR 0x83, CHR 0x84, CHR 0x85,
        CHR 0x86, CHR 0x87, CHR 0x88, CHR 0x89, CHR 0x8A,
        CHR 0xA8, CHR 0xA9, CHR 0xAF] @
     [[CHR 0xE2, CHR 0x81, CHR 0x9F], [CHR 0xE3, CHR 0x80, CHR 0x80]]"

text \<open>
  \<open>ws_len ws s\<close> is the number of bytes of the whitespace sequence from
  \<open>ws\<close> that \<open>s\<close> starts with, and 0 when it starts with none.
\<close>

definition ws_len :: "string list \<Rightarrow> string \<Rightarrow> nat" where
  "ws_len ws s = (case find (\<lambda>w. starts_with w s) ws of None \<Rightarrow> 0 | Some w \<Rightarrow> length w)"

fun strip_left :: "string list \<Rightarrow> string \<Rightarrow> string" where
  "strip_left ws [] = []"
| "strip_left ws (c # cs) =
     (case ws_len ws (c # cs) of
        0 \<Rightarrow> c # cs
      | Suc k \<Rightarrow> strip_left ws (drop k cs))"

definition lstrip :: "string \<Rightarrow> string" where
  "lstrip s = strip_left whitespace s"

definition rstrip :: "string \<Rightarrow> string" where
  "rstrip s = rev (strip_left (map rev whitespace) (rev s))"

definition strip :: "string \<Rightarrow> string" where
  "strip s = rstrip (lstrip s)"

text \<open>Decimal digits of a natural number, and zero padding to a width.\<close>

definition digit_char :: "nat \<Rightarrow> char" where
  "digit_char d = ''0123456789'' ! d"

definition is_digit :: "char \<Rightarrow> bool" where
  "is_digit c = (c \<in> set ''0123456789'')"

function show_nat :: "nat \<Rightarrow> string" where
  "show_nat n = (if n < 10 then [digit_char n] else show_nat (n div 10) @ [digit_char (n mod 10)])"
  by pat_completeness auto
termination
  by (relation "measure id") auto

declare show_nat.simps [simp del]

definition zfill :: "nat \<Rightarrow> string \<Rightarrow> string" where
  "zfill w s = replicate (w - length s) CHR ''0'' @ s"

text \<open>
  \<open>date.strftime('%Y-%m-%d')\<close>, which is also \<open>f"{date:%Y-%m-%d}"\<close>.
  The month and the day are zero-padded to two digits. CPython passes
  \<open>%Y\<close> to the C library, and whether a year below 1000 is zero-padded to
  four digits depends on it (glibc prints the year 999 as \<open>999\<close>, other
  platforms as \<open>0999\<close>), so the model takes this as the flag \<open>pad_year\<close>.
  From the year 1000 on the flag makes no difference.
\<close>

definition strftime_ymd :: "bool \<Rightarrow> pydate \<Rightarrow> string" where
  "strftime_ymd pad_year d =
     (if pad_year then zfill 4 (show_nat (year d)) else show_nat (year d)) @ ''-'' @
     zfill 2 (show_nat (month d)) @ ''-'' @ zfill 2 (show_nat (day d))"

section \<open>\<open>fetch_trends_2023_us\<close>\<close>

text \<open>
  The trends service and pandas are outside the repository, so the fetcher
  takes them as parameters. \<open>interest_over_time keyword\<close> stands for the
  statements of the \<open>try\<close> block up to \<open>pytrends.interest_over_time()\<close>
  (client construction, \<open>build_payload\<close>, the sleep and the query): it is
  \<open>Inl (str(e))\<close> when one of them raises the exception \<open>e\<close>, and otherwise
  \<open>Inr\<close> of the returned frame, \<open>None\<close> or the list of its rows.
  \<open>weekly keyword df\<close> stands for the reshaping of a non-empty frame
  (column selection, \<open>asfreq("W-SUN")\<close>, \<open>tz_localize(None)\<close>), which runs
  inside the same \<open>try\<close> block and may raise as well.

  The result is the returned frame together with the messages passed to
  \<open>st.error\<close>. The first message starts with the warning sign U+26A0 U+FE0F.
\<close>

definition rate_limit_message :: string where
  "rate_limit_message =
     [CHR 0xE2, CHR 0x9A, CHR 0xA0, CHR 0xEF, CHR 0xB8, CHR 0x8F] @
     '' Rate limit exceeded. Please wait a few minutes before trying again.''"

definition fetch_failed_message :: "string \<Rightarrow> string" where
  "fetch_failed_message e = ''Error fetching trends data: '' @ e"

text \<open>The test of the handler: \<open>"429" in str(e) or "TooManyRequests" in str(e)\<close>.\<close>

definition is_rate_limit :: "string \<Rightarrow> bool" where
  "is_rate_limit e = (contains_str ''429'' e \<or> contains_str ''TooManyRequests'' e)"

definition fetch_except :: "string \<Rightarrow> obs list \<times> string list" where
  "fetch_except e =
     (if is_rate_limit e then ([], [rate_limit_message])
      else ([], [fetch_failed_message e]))"

definition fetch_trends_2023_us ::
  "(string \<Rightarrow> string + 'raw list option) \<Rightarrow> (string \<Rightarrow> 'raw list \<Rightarrow> string + obs list) \<Rightarrow>
   string \<Rightarrow> obs list \<times> string list" where
  "fetch_trends_2023_us interest_over_time weekly keyword =
     (case interest_over_time keyword of
        Inl e \<Rightarrow> fetch_except e
      | Inr None \<Rightarrow> ([], [])
      | Inr (Some df) \<Rightarrow>
          if df = [] then ([], [])
          else (case weekly keyword df of
                  Inl e \<Rightarrow> fetch_except e
                | Inr out \<Rightarrow> (out, [])))"

text \<open>A trends service that always fails with the given error text.\<close>

definition failing_service :: "string \<Rightarrow> string \<Rightarrow> string + unit list option" where
  "failing_service e keyword = Inl e"

definition no_reshape :: "string \<Rightarrow> unit list \<Rightarrow> string + obs list" where
  "no_reshape keyword df = Inr []"

section \<open>Explanations\<close>

text \<open>
  \<open>build_explanation_prompt\<close>. The region is \<open>the US\<close> in \<open>app.py\<close> and
  \<open>get_geo_display_name(GEO_CODE)\<close> in \<open>app_openai.py\<close>, a lookup in an
  external country table, taken as a parameter.
\<close>

definition build_explanation_prompt ::
  "bool \<Rightarrow> string \<Rightarrow> string \<Rightarrow> pydate \<Rightarrow> string \<Rightarrow> string" where
  "build_explanation_prompt pad_year region keyword d dir_word =
     ''Explain why search interest in '' @ [CHR 0x27] @ keyword @ [CHR 0x27] @
     '' might have '' @ dir_word @ '' on '' @ strftime_ymd pad_year d @ '' in '' @ region @
     ''. Give a concise 2-3 sentence hypothesis.''"

text \<open>
  The test \<open>not token or token.strip() == PLACEHOLDER\<close> on an optional
  string: true for \<open>None\<close>, for the empty string and for the placeholder
  with any surrounding whitespace.
\<close>

definition no_credential :: "string \<Rightarrow> string option \<Rightarrow> bool" where
  "no_credential placeholder token =
     (case token of None \<Rightarrow> True | Some s \<Rightarrow> s = [] \<or> strip s = placeholder)"

definition hf_placeholder :: string where
  "hf_placeholder = ''YOUR_HF_API_TOKEN_HERE''"

definition openai_placeholder :: string where
  "openai_placeholder = ''YOUR_OPENAI_API_KEY_HERE''"

text \<open>The canned sentence both applications return when there is no credential.\<close>

definition demo_explanation :: "bool \<Rightarrow> string \<Rightarrow> pydate \<Rightarrow> string" where
  "demo_explanation pad_year dir_word d =
     ''(Demo) Possible reason it '' @ dir_word @
     '': seasonal events, news cycles, or viral content around '' @
     strftime_ymd pad_year d @ ''.''"

text \<open>
  The external backends are parameters, and every use of one is recorded:
  \<open>Construct\<close> for building the pipeline or the client with a credential,
  \<open>Complete\<close> for a text-generation request with a prompt. An explanation
  function returns its string together with this record of calls.
\<close>

datatype backend_call = Construct string | Complete string

text \<open>
  What the text-generation pipeline returns: a list of dictionaries, of
  which only \<open>.get("generated_text")\<close> of each is kept (\<open>Some\<close> when it is
  a string), a string, or something else; \<open>str(outputs)\<close> is carried
  along where the code may need it.
\<close>

datatype hf_outputs = HF_List "string option list" string | HF_Str string | HF_Other string

type_synonym hf_pipeline = "string \<Rightarrow> string + hf_outputs"

text \<open>
  \<open>get_textgen_pipeline(token)\<close>; \<open>mk token\<close> is the call
  \<open>pipeline(task="text-generation", ...)\<close>, \<open>None\<close> when it raises.
\<close>

definition get_textgen_pipeline ::
  "(string \<Rightarrow> hf_pipeline option) \<Rightarrow> string option \<Rightarrow> hf_pipeline option \<times> backend_call list" where
  "get_textgen_pipeline mk token =
     (if no_credential hf_placeholder token then (None, [])
      else case token of
             None \<Rightarrow> (None, [])
           | Some tok \<Rightarrow> (mk tok, [Construct tok]))"

definition hf_text :: "hf_outputs \<Rightarrow> string" where
  "hf_text outputs =
     (case outputs of
        HF_List [] repr \<Rightarrow> repr
      | HF_List (Some text # rest) repr \<Rightarrow> strip text
      | HF_List (None # rest) repr \<Rightarrow> repr
      | HF_Str text \<Rightarrow> strip text
      | HF_Other repr \<Rightarrow> repr)"

definition get_hf_explanation ::
  "bool \<Rightarrow> (string \<Rightarrow> hf_pipeline option) \<Rightarrow> string \<Rightarrow> pydate \<Rightarrow> string \<Rightarrow>
   string option \<Rightarrow> string \<times> backend_call list" where
  "get_hf_explanation pad_year mk keyword d dir_word token =
     (let prompt = build_explanation_prompt pad_year ''the US'' keyword d dir_word
      in if no_credential hf_placeholder token then (demo_explanation pad_year dir_word d, [])
         else case get_textgen_pipeline mk token of
                (Some textgen, calls) \<Rightarrow>
                  (case textgen prompt of
                     Inr outputs \<Rightarrow> (hf_text outputs, calls @ [Complete prompt])
                   | Inl e \<Rightarrow> (''(Pipeline) Generation failed: '' @ e, calls @ [Complete prompt]))
              | (None, calls) \<Rightarrow>
                  (''(Pipeline) Text-generation pipeline unavailable. Ensure transformers is installed and model is accessible.'',
                   calls))"

text \<open>
  The chat-completion client of \<open>app_openai.py\<close>: a request returns the
  \<open>message.content\<close> of each choice (\<open>None\<close> or a string), or raises.
\<close>

type_synonym openai_client = "string \<Rightarrow> string + string option list"

definition get_openai_client ::
  "(string \<Rightarrow> openai_client option) \<Rightarrow> string option \<Rightarrow> openai_client option \<times> backend_call list" where
  "get_openai_client mk api_key =
     (if no_credential openai_placeholder api_key then (None, [])
      else case api_key of
             None \<Rightarrow> (None, [])
           | Some k \<Rightarrow> (mk k, [Construct k]))"

definition openai_text :: "string option list \<Rightarrow> string" where
  "openai_text choices =
     (case choices of
        Some content # rest \<Rightarrow> (if content \<noteq> [] then strip content else ''No response generated.'')
      | _ \<Rightarrow> ''No response generated.'')"

definition get_openai_explanation ::
  "bool \<Rightarrow> string \<Rightarrow> (string \<Rightarrow> openai_client option) \<Rightarrow> string \<Rightarrow> pydate \<Rightarrow> string \<Rightarrow>
   string option \<Rightarrow> string \<times> backend_call list" where
  "get_openai_explanation pad_year geo_display_name mk keyword d dir_word api_key =
     (let prompt = build_explanation_prompt pad_year geo_display_name keyword d dir_word
      in if no_credential openai_placeholder api_key
         then (demo_explanation pad_year dir_word d, [])
         else case get_openai_client mk api_key of
                (Some client, calls) \<Rightarrow>
                  (case client prompt of
                     Inr choices \<Rightarrow> (openai_text choices, calls @ [Complete prompt])
                   | Inl e \<Rightarrow> (''(OpenAI) Generation failed: '' @ e, calls @ [Complete prompt]))
              | (None, calls) \<Rightarrow>
                  (''(OpenAI) Client unavailable. Ensure openai library is installed and API key is valid.'',
                   calls))"

text \<open>Backends that cannot be constructed.\<close>

definition no_pipeline :: "string \<Rightarrow> hf_pipeline option" where
  "no_pipeline token = None"

definition no_client :: "string \<Rightarrow> openai_client option" where
  "no_client api_key = None"

section \<open>\<open>format_pct\<close>\<close>









section \<open>Basic facts about the series operations\<close>

lemmas annot_defs = compute_anomalies_def pct_change_series_def shift1_def isna_def notna_def
  annotate_row_def direction_of_def flt_def

lemma length_ffill: "length (ffill prev xs) = length xs"
  by (induction xs arbitrary: prev) simp_all

lemma length_shift1: "length (shift1 xs) = length xs"
  by (simp add: shift1_def)

lemma length_pct_change_series: "length (pct_change_series pad xs) = length xs"
  by (simp add: pct_change_series_def Let_def length_ffill length_shift1)

lemma fdiv_NaN_right [simp]: "fdiv a NaN = NaN"
  by (cases a) simp_all

lemma fge_fabs_notna: "fge (fabs x) t \<Longrightarrow> notna x"
  by (cases x) (simp_all add: notna_def isna_def)

text \<open>Every row of the output is a row of the input annotated with some change.\<close>

lemma in_compute_anomalies:
  assumes "p \<in> set (compute_anomalies pad df t)"
  obtains r x where "r \<in> set df" and "p = annotate_row t r x"
  using assms
  by (auto simp: compute_anomalies_def Let_def split: if_splits
      dest!: set_zip_leftD elim!: in_set_zipE)

text \<open>The first change is NaN: the shifted series starts with NaN.\<close>

lemma pct_change_series_Cons:
  "\<exists>ys. pct_change_series pad (x # xs) = NaN # ys"
  by (simp add: pct_change_series_def shift1_def Let_def)

lemma annotate_row_NaN:
  "pct_change (annotate_row t r NaN) = NaN \<and> \<not> is_anomaly (annotate_row t r NaN) \<and>
   direction (annotate_row t r NaN) = None"
  by (simp add: annotate_row_def direction_of_def notna_def isna_def)

lemma direction_of_cases:
  "(direction_of x = Some ''spiked'' \<longleftrightarrow> notna x \<and> fgt x (Num 0)) \<and>
   (direction_of x = Some ''dropped'' \<longleftrightarrow> notna x \<and> flt x (Num 0)) \<and>
   (direction_of x = None \<longleftrightarrow> isna x \<or> x = Num 0)"
  by (cases x) (auto simp: direction_of_def notna_def isna_def flt_def)

lemma flagged_has_direction:
  "fgt t (Num 0) \<Longrightarrow> fge (fabs x) t \<Longrightarrow>
     direction_of x = Some ''spiked'' \<or> direction_of x = Some ''dropped''"
  by (cases x; cases t) (auto simp: direction_of_def notna_def isna_def flt_def)

lemma project_map2:
  "length ys = length xs \<Longrightarrow>
     map (\<lambda>r. \<lparr> date = date r, interest = interest r \<rparr>) (map2 (annotate_row t) xs ys) = xs"
  by (induction xs ys rule: list_induct2') (simp_all add: annotate_row_def)

lemma project_compute_anomalies: "project (compute_anomalies pad S t) = S"
proof (cases "S = []")
  case True
  then show ?thesis by (simp add: project_def compute_anomalies_def)
next
  case False
  have "length (pct_change_series pad (map interest S)) = length S"
    by (simp add: length_pct_change_series)
  from project_map2 [OF this, of t] False show ?thesis
    unfolding project_def compute_anomalies_def Let_def by simp
qed

section \<open>Basic facts about strings and formatting\<close>

lemma starts_with_append: "starts_with p (p @ s)"
  by (induction p) simp_all

lemma contains_str_here: "contains_str sub (sub @ b)"
  by (cases "sub @ b") (simp_all add: starts_with_append del: starts_with.simps,
      metis starts_with_append)

lemma contains_str_append: "contains_str sub (a @ sub @ b)"
  by (induction a) (simp_all add: contains_str_here)

lemma digit_char_is_digit: "d < 10 \<Longrightarrow> is_digit (digit_char d)"
proof -
  assume "d < 10"
  then have "d \<in> {0, 1, 2, 3, 4, 5, 6, 7, 8, 9}" by auto
  then show ?thesis
    by (auto simp: is_digit_def digit_char_def)
qed

lemma show_nat_digits: "list_all is_digit (show_nat n) \<and> show_nat n \<noteq> []"
proof (induction n rule: show_nat.induct)
  case (1 n)
  show ?case
  proof (cases "n < 10")
    case True
    then show ?thesis
      by (simp add: show_nat.simps [of n] digit_char_is_digit)
  next
    case False
    with 1 show ?thesis
      by (simp add: show_nat.simps [of n] digit_char_is_digit)
  qed
qed






lemma length_show_nat: "0 < k \<Longrightarrow> n < 10 ^ k \<Longrightarrow> length (show_nat n) \<le> k"
proof (induction n arbitrary: k rule: show_nat.induct)
  case (1 n)
  show ?case
  proof (cases "n < 10")
    case True
    with "1.prems" show ?thesis by (simp add: show_nat.simps [of n])
  next
    case False
    with "1.prems" have k: "1 < k"
      by (cases "k = 1") auto
    then obtain j where j: "k = Suc j" and "0 < j"
      by (cases k) auto
    from "1.prems" j have "n div 10 < 10 ^ j"
      by (simp add: less_mult_imp_div_less mult.commute)
    with "1.IH" [of j] False \<open>0 < j\<close> have "length (show_nat (n div 10)) \<le> j" by simp
    with False j show ?thesis by (simp add: show_nat.simps [of n])
  qed
qed

lemma zfill_digits:
  "length (show_nat n) \<le> w \<Longrightarrow>
     length (zfill w (show_nat n)) = w \<and> list_all is_digit (zfill w (show_nat n))"
proof -
  assume le: "length (show_nat n) \<le> w"
  have zero: "is_digit CHR ''0''"
    by (simp add: is_digit_def)
  have "list_all is_digit (replicate (w - length (show_nat n)) CHR ''0'')"
    using zero by (simp add: list_all_iff)
  with le show_nat_digits [of n] show ?thesis
    by (simp add: zfill_def)
qed

lemma length_show_nat_lower: "10 ^ k \<le> n \<Longrightarrow> k < length (show_nat n)"
proof (induction n arbitrary: k rule: show_nat.induct)
  case (1 n)
  show ?case
  proof (cases "n < 10")
    case True
    have "k = 0"
    proof (rule ccontr)
      assume "k \<noteq> 0"
      then have "(10::nat) ^ 1 \<le> 10 ^ k"
        by (intro power_increasing) simp_all
      with "1.prems" True show False by simp
    qed
    with True show ?thesis by (simp add: show_nat.simps [of n])
  next
    case False
    show ?thesis
    proof (cases k)
      case 0
      with False show ?thesis by (simp add: show_nat.simps [of n])
    next
      case (Suc j)
      with "1.prems" have "10 ^ j \<le> n div 10"
        by (simp add: less_eq_div_iff_mult_less_eq mult.commute)
      with "1.IH" [of j] False have "j < length (show_nat (n div 10))" by simp
      with False Suc show ?thesis by (simp add: show_nat.simps [of n])
    qed
  qed
qed

text \<open>
  From the year 1000 on the formatted date is four digits, two digits and
  two digits, joined by hyphens, whether or not the platform pads the year.
\<close>

lemma strftime_ymd_shape:
  assumes "1000 \<le> year d" and "year d < 10000" and "month d < 100" and "day d < 100"
  shows "\<exists>Y M D. strftime_ymd pad_year d = Y @ ''-'' @ M @ ''-'' @ D \<and>
           length Y = 4 \<and> length M = 2 \<and> length D = 2 \<and> list_all is_digit (Y @ M @ D)"
proof -
  have up: "length (show_nat (year d)) \<le> 4"
    using assms(2) by (intro length_show_nat) simp_all
  have "3 < length (show_nat (year d))"
    using assms(1) by (intro length_show_nat_lower) simp
  with up have len: "length (show_nat (year d)) = 4" by simp
  then have same: "zfill 4 (show_nat (year d)) = show_nat (year d)"
    by (simp add: zfill_def)
  have "length (show_nat (month d)) \<le> 2"
    using assms(3) by (intro length_show_nat) simp_all
  moreover have "length (show_nat (day d)) \<le> 2"
    using assms(4) by (intro length_show_nat) simp_all
  ultimately show ?thesis
    using len show_nat_digits [of "year d"]
      zfill_digits [of "month d" 2] zfill_digits [of "day d" 2]
    unfolding strftime_ymd_def same if_cancel by (metis list_all_append)
qed

section \<open>Basic facts about the fetcher\<close>

lemma rate_limit_message_distinct: "rate_limit_message \<noteq> fetch_failed_message e"
  by (simp add: rate_limit_message_def fetch_failed_message_def)

lemma fetch_except_frame: "fst (fetch_except e) = []"
  by (simp add: fetch_except_def)

lemma fetch_except_messages:
  "snd (fetch_except e) = [if is_rate_limit e then rate_limit_message else fetch_failed_message e]"
  by (simp add: fetch_except_def)

section \<open>Claims\<close>

text \<open>
  C1. The specification states that when the previous value is zero, the change is undefined,
  the point is not flagged and its direction is none; in the series
  \<open>[100, 135, 90, 90, 0, 50]\<close> with threshold 0.30, index 5 is not
  anomalous. The comment above the computation announces that zero previous
  values are replaced by NaN, but the code calls \<open>pct_change()\<close> on the
  unmodified column. At index 5 the division \<open>50 / 0\<close> is an infinity, so
  the change is \<open>+inf\<close>, the point is flagged and its direction is
  \<open>spiked\<close>. The theorem evaluates the code there.
\<close>

theorem C1_zero_previous_is_flagged:
  "interest (weekly_example ! 4) = Num 0 \<and>
   pct_change (compute_anomalies pad weekly_example (Num (3/10)) ! 5) = PosInf \<and>
   is_anomaly (compute_anomalies pad weekly_example (Num (3/10)) ! 5) \<and>
   direction (compute_anomalies pad weekly_example (Num (3/10)) ! 5) = Some ''spiked''"
  by (cases pad) (simp_all add: annot_defs weekly_example_def)

text \<open>
  C2. For every series and threshold, a point is flagged exactly when its
  change is defined (not NaN) and its absolute value is at least the
  threshold. Under the default threshold 0.30, a finite change of magnitude
  exactly 0.30 is flagged and one of magnitude below 0.30 is not.
\<close>

theorem C2_flag_iff_threshold:
  "(\<forall>p \<in> set (compute_anomalies pad S t).
      is_anomaly p \<longleftrightarrow> notna (pct_change p) \<and> fge (fabs (pct_change p)) t) \<and>
   (\<forall>p \<in> set (compute_anomalies pad S (Num (3/10))). \<forall>x.
      pct_change p = Num x \<longrightarrow>
        (\<bar>x\<bar> = 3/10 \<longrightarrow> is_anomaly p) \<and> (\<bar>x\<bar> < 3/10 \<longrightarrow> \<not> is_anomaly p))"
proof (intro conjI ballI allI impI)
  fix p assume "p \<in> set (compute_anomalies pad S t)"
  then obtain r x where p: "p = annotate_row t r x"
    by (rule in_compute_anomalies)
  show "is_anomaly p \<longleftrightarrow> notna (pct_change p) \<and> fge (fabs (pct_change p)) t"
    using fge_fabs_notna [of x t] by (auto simp: p annotate_row_def)
next
  fix p x assume "p \<in> set (compute_anomalies pad S (Num (3/10)))"
    and px: "pct_change p = Num x"
  then obtain r y where p: "p = annotate_row (Num (3/10)) r y"
    by (auto elim: in_compute_anomalies)
  from px p have y: "y = Num x" by (simp add: annotate_row_def)
  show "\<bar>x\<bar> = 3/10 \<Longrightarrow> is_anomaly p" by (simp add: p y annotate_row_def)
  show "\<bar>x\<bar> < 3/10 \<Longrightarrow> \<not> is_anomaly p" by (simp add: p y annotate_row_def)
qed

theorem C2_flag_iff_threshold_witness:
  "compute_anomalies True boundary_example (Num (3/10)) ! 1
     \<in> set (compute_anomalies True boundary_example (Num (3/10))) \<and>
   pct_change (compute_anomalies True boundary_example (Num (3/10)) ! 1) = Num (3/10) \<and>
   is_anomaly (compute_anomalies True boundary_example (Num (3/10)) ! 1) \<and>
   pct_change (compute_anomalies True boundary_example (Num (3/10)) ! 2) = Num (- 3/10) \<and>
   is_anomaly (compute_anomalies True boundary_example (Num (3/10)) ! 2) \<and>
   pct_change (compute_anomalies True boundary_example (Num (3/10)) ! 3) = Num (27/91) \<and>
   \<not> is_anomaly (compute_anomalies True boundary_example (Num (3/10)) ! 3) \<and>
   isna (pct_change (compute_anomalies True boundary_example (Num (3/10)) ! 0)) \<and>
   \<not> is_anomaly (compute_anomalies True boundary_example (Num (3/10)) ! 0)"
  using C2_flag_iff_threshold [of True boundary_example "Num (3/10)"]
  by (simp add: annot_defs boundary_example_def)

text \<open>
  C3. For every series and every threshold the annotated output has exactly
  as many rows as the input, and the empty series gives the empty output.
\<close>

theorem C3_length_preserved:
  "length (compute_anomalies pad S t) = length S \<and> compute_anomalies pad [] t = []"
  by (simp add: compute_anomalies_def Let_def length_pct_change_series)

text \<open>
  C4. For every non-empty series and every threshold, the first point of
  the output has an undefined change, is not flagged and has no direction.
\<close>

theorem C4_first_point_plain:
  "S \<noteq> [] \<Longrightarrow>
     compute_anomalies pad S t \<noteq> [] \<and>
     isna (pct_change (hd (compute_anomalies pad S t))) \<and>
     \<not> is_anomaly (hd (compute_anomalies pad S t)) \<and>
     direction (hd (compute_anomalies pad S t)) = None"
proof -
  assume "S \<noteq> []"
  then obtain r rs where S: "S = r # rs" by (cases S) auto
  obtain ys where ys: "pct_change_series pad (interest r # map interest rs) = NaN # ys"
    using pct_change_series_Cons by blast
  have "hd (compute_anomalies pad S t) = annotate_row t r NaN"
    and "compute_anomalies pad S t \<noteq> []"
    by (simp_all add: S compute_anomalies_def ys)
  then show ?thesis
    using annotate_row_NaN [of t r] by (simp add: isna_def)
qed

theorem C4_first_point_plain_witness:
  "weekly_example \<noteq> [] \<and>
   compute_anomalies False weekly_example (Num (3/10)) \<noteq> [] \<and>
   isna (pct_change (hd (compute_anomalies False weekly_example (Num (3/10))))) \<and>
   \<not> is_anomaly (hd (compute_anomalies False weekly_example (Num (3/10)))) \<and>
   direction (hd (compute_anomalies False weekly_example (Num (3/10)))) = None"
proof -
  have ne: "weekly_example \<noteq> []" by (simp add: weekly_example_def)
  show ?thesis using ne C4_first_point_plain [OF ne, of False "Num (3/10)"] by simp
qed

text \<open>
  C5. For every annotated point, the direction is \<open>spiked\<close> exactly when
  the change is defined and greater than zero, \<open>dropped\<close> exactly when it
  is defined and less than zero, and none exactly when the change is
  undefined or zero.
\<close>

theorem C5_direction_from_sign:
  "\<forall>p \<in> set (compute_anomalies pad S t).
     (direction p = Some ''spiked'' \<longleftrightarrow> notna (pct_change p) \<and> fgt (pct_change p) (Num 0)) \<and>
     (direction p = Some ''dropped'' \<longleftrightarrow> notna (pct_change p) \<and> flt (pct_change p) (Num 0)) \<and>
     (direction p = None \<longleftrightarrow> isna (pct_change p) \<or> pct_change p = Num 0)"
proof
  fix p assume "p \<in> set (compute_anomalies pad S t)"
  then obtain r x where p: "p = annotate_row t r x"
    by (rule in_compute_anomalies)
  have "direction p = direction_of x" and "pct_change p = x"
    by (simp_all add: p annotate_row_def)
  then show "(direction p = Some ''spiked'' \<longleftrightarrow> notna (pct_change p) \<and> fgt (pct_change p) (Num 0)) \<and>
     (direction p = Some ''dropped'' \<longleftrightarrow> notna (pct_change p) \<and> flt (pct_change p) (Num 0)) \<and>
     (direction p = None \<longleftrightarrow> isna (pct_change p) \<or> pct_change p = Num 0)"
    using direction_of_cases [of x] by simp
qed

theorem C5_direction_from_sign_witness:
  "compute_anomalies True weekly_example (Num (3/10)) ! 2
     \<in> set (compute_anomalies True weekly_example (Num (3/10))) \<and>
   direction (compute_anomalies True weekly_example (Num (3/10)) ! 2) = Some ''dropped'' \<and>
   flt (pct_change (compute_anomalies True weekly_example (Num (3/10)) ! 2)) (Num 0) \<and>
   direction (compute_anomalies True weekly_example (Num (3/10)) ! 3) = None \<and>
   pct_change (compute_anomalies True weekly_example (Num (3/10)) ! 3) = Num 0 \<and>
   direction (compute_anomalies True weekly_example (Num (3/10)) ! 1) = Some ''spiked'' \<and>
   fgt (pct_change (compute_anomalies True weekly_example (Num (3/10)) ! 1)) (Num 0)"
  using C5_direction_from_sign [of True weekly_example "Num (3/10)"]
  by (simp add: annot_defs weekly_example_def)

text \<open>
  C6. \<open>compute_anomalies\<close> is a function of the series and the threshold
  alone (it reads no clock, random source or stored state, so two runs on
  the same input agree), and it is idempotent: projecting its output back
  to the columns \<open>date\<close> and \<open>interest\<close> gives the input series again, so
  annotating the projection reproduces the same annotation.
\<close>

theorem C6_idempotent:
  "project (compute_anomalies pad S t) = S \<and>
   compute_anomalies pad (project (compute_anomalies pad S t)) t = compute_anomalies pad S t"
  by (simp add: project_compute_anomalies)

text \<open>
  C7. When the trends service raises an error with text \<open>e\<close>, the fetcher
  returns the empty frame instead of raising, and reports exactly one
  message: the rate-limit message when \<open>e\<close> carries a rate-limit marker
  (\<open>429\<close>, or \<open>TooManyRequests\<close>, the name of that HTTP status), and
  otherwise the generic message that ends with \<open>e\<close>. The rate-limit message
  is reported in no other case.
\<close>

theorem C7_fetch_errors_recovered:
  assumes "interest_over_time keyword = Inl e"
  shows "fst (fetch_trends_2023_us interest_over_time weekly keyword) = [] \<and>
         snd (fetch_trends_2023_us interest_over_time weekly keyword) =
           [if is_rate_limit e then rate_limit_message else fetch_failed_message e] \<and>
         (snd (fetch_trends_2023_us interest_over_time weekly keyword) = [rate_limit_message]
            \<longleftrightarrow> is_rate_limit e)"
proof -
  have run: "fetch_trends_2023_us interest_over_time weekly keyword = fetch_except e"
    using assms by (simp add: fetch_trends_2023_us_def)
  show ?thesis
    unfolding run
    using rate_limit_message_distinct [of e]
    by (simp add: fetch_except_frame fetch_except_messages)
qed

theorem C7_fetch_errors_recovered_witness:
  "failing_service ''The request failed: Google returned a response with code 429'' ''bitcoin'' =
     Inl ''The request failed: Google returned a response with code 429'' \<and>
   fetch_trends_2023_us
     (failing_service ''The request failed: Google returned a response with code 429'')
     no_reshape ''bitcoin'' = ([], [rate_limit_message]) \<and>
   failing_service ''Connection reset'' ''bitcoin'' = Inl ''Connection reset'' \<and>
   fetch_trends_2023_us (failing_service ''Connection reset'') no_reshape ''bitcoin'' =
     ([], [''Error fetching trends data: Connection reset''])"
proof -
  have a: "failing_service ''The request failed: Google returned a response with code 429'' ''bitcoin'' =
     Inl ''The request failed: Google returned a response with code 429''"
    by (simp add: failing_service_def)
  have b: "failing_service ''Connection reset'' ''bitcoin'' = Inl ''Connection reset''"
    by (simp add: failing_service_def)
  have ra: "is_rate_limit ''The request failed: Google returned a response with code 429''"
    by (simp add: is_rate_limit_def)
  have rb: "\<not> is_rate_limit ''Connection reset''"
    by (simp add: is_rate_limit_def)
  show ?thesis
    using a b ra rb
      C7_fetch_errors_recovered
        [of "failing_service ''The request failed: Google returned a response with code 429''"
          "''bitcoin''" "''The request failed: Google returned a response with code 429''" no_reshape]
      C7_fetch_errors_recovered
        [of "failing_service ''Connection reset''" "''bitcoin''" "''Connection reset''" no_reshape]
    by (simp add: prod_eq_iff fetch_failed_message_def)
qed

text \<open>
  C8. The specification states that with no credential the explanation step
  returns a string that contains the keyword, the date in the form
  \<open>YYYY-MM-DD\<close> and the direction word. The canned sentence is built from
  the direction and the date only; for the keyword \<open>bitcoin\<close> it does
  not contain the keyword. Where the C library does not pad the year, the
  date of the year 999 is written with three digits.
\<close>

theorem C8_keyword_missing_counterexample:
  "no_credential hf_placeholder None \<and>
   \<not> contains_str ''bitcoin''
       (fst (get_hf_explanation True no_pipeline ''bitcoin''
               \<lparr>year = 2023, month = 3, day = 5\<rparr> ''spiked'' None)) \<and>
   \<not> contains_str ''bitcoin''
       (fst (get_hf_explanation False no_pipeline ''bitcoin''
               \<lparr>year = 2023, month = 3, day = 5\<rparr> ''spiked'' None)) \<and>
   no_credential openai_placeholder None \<and>
   \<not> contains_str ''bitcoin''
       (fst (get_openai_explanation True ''United States'' no_client ''bitcoin''
               \<lparr>year = 2023, month = 3, day = 5\<rparr> ''spiked'' None)) \<and>
   \<not> contains_str ''bitcoin''
       (fst (get_openai_explanation False ''United States'' no_client ''bitcoin''
               \<lparr>year = 2023, month = 3, day = 5\<rparr> ''spiked'' None)) \<and>
   fst (get_hf_explanation False no_pipeline ''bitcoin''
          \<lparr>year = 999, month = 1, day = 1\<rparr> ''spiked'' None) =
     ''(Demo) Possible reason it spiked: seasonal events, news cycles, or viral content around 999-01-01.'' \<and>
   \<not> contains_str ''0999-01-01''
       (fst (get_hf_explanation False no_pipeline ''bitcoin''
               \<lparr>year = 999, month = 1, day = 1\<rparr> ''spiked'' None))"
  by (simp add: get_hf_explanation_def get_openai_explanation_def no_credential_def
      demo_explanation_def strftime_ymd_def zfill_def show_nat.simps digit_char_def)

text \<open>
  C8, amended. For every keyword, date and direction word, when the token is
  absent, empty or the placeholder (with any surrounding whitespace), either
  explanation function returns the canned sentence and uses no backend: the
  record of backend calls is empty. The sentence contains the direction word
  and the date as \<open>%Y-%m-%d\<close> formats it, which for a calendar date from
  the year 1000 on has the form \<open>YYYY-MM-DD\<close>. This holds whether or not
  the platform pads the year.
\<close>

theorem C8_fallback_without_backend:
  "(no_credential hf_placeholder token \<longrightarrow>
      get_hf_explanation pad_year mk keyword d w token = (demo_explanation pad_year w d, [])) \<and>
   (no_credential openai_placeholder token \<longrightarrow>
      get_openai_explanation pad_year region mk' keyword d w token =
        (demo_explanation pad_year w d, [])) \<and>
   contains_str w (demo_explanation pad_year w d) \<and>
   contains_str (strftime_ymd pad_year d) (demo_explanation pad_year w d) \<and>
   (1000 \<le> year d \<and> year d < 10000 \<and> month d \<le> 12 \<and> day d \<le> 31 \<longrightarrow>
      (\<exists>Y M D. strftime_ymd pad_year d = Y @ ''-'' @ M @ ''-'' @ D \<and>
         length Y = 4 \<and> length M = 2 \<and> length D = 2 \<and> list_all is_digit (Y @ M @ D)))"
proof (intro conjI impI)
  show "contains_str w (demo_explanation pad_year w d)"
    unfolding demo_explanation_def by (rule contains_str_append)
  have "demo_explanation pad_year w d =
      (''(Demo) Possible reason it '' @ w @
       '': seasonal events, news cycles, or viral content around '') @
      strftime_ymd pad_year d @ ''.''"
    by (simp add: demo_explanation_def)
  then show "contains_str (strftime_ymd pad_year d) (demo_explanation pad_year w d)"
    by (simp only: contains_str_append)
  assume "1000 \<le> year d \<and> year d < 10000 \<and> month d \<le> 12 \<and> day d \<le> 31"
  then show "\<exists>Y M D. strftime_ymd pad_year d = Y @ ''-'' @ M @ ''-'' @ D \<and>
         length Y = 4 \<and> length M = 2 \<and> length D = 2 \<and> list_all is_digit (Y @ M @ D)"
    by (intro strftime_ymd_shape) simp_all
qed (simp_all add: get_hf_explanation_def get_openai_explanation_def)

theorem C8_fallback_without_backend_witness:
  "no_credential hf_placeholder (Some ''  YOUR_HF_API_TOKEN_HERE '') \<and>
   no_credential openai_placeholder None \<and>
   get_hf_explanation False no_pipeline ''bitcoin'' \<lparr>year = 2023, month = 3, day = 5\<rparr> ''spiked''
     (Some ''  YOUR_HF_API_TOKEN_HERE '') =
     (''(Demo) Possible reason it spiked: seasonal events, news cycles, or viral content around 2023-03-05.'', []) \<and>
   get_openai_explanation True ''United States'' no_client ''bitcoin''
     \<lparr>year = 2023, month = 3, day = 5\<rparr> ''dropped'' None =
     (''(Demo) Possible reason it dropped: seasonal events, news cycles, or viral content around 2023-03-05.'', []) \<and>
   1000 \<le> year \<lparr>year = 2023, month = 3, day = 5\<rparr> \<and>
   year \<lparr>year = 2023, month = 3, day = 5\<rparr> < 10000 \<and>
   month \<lparr>year = 2023, month = 3, day = 5\<rparr> \<le> 12 \<and>
   day \<lparr>year = 2023, month = 3, day = 5\<rparr> \<le> 31 \<and>
   strftime_ymd False \<lparr>year = 2023, month = 3, day = 5\<rparr> = ''2023-03-05'' \<and>
   strftime_ymd True \<lparr>year = 2023, month = 3, day = 5\<rparr> = ''2023-03-05''"
proof -
  have a: "no_credential hf_placeholder (Some ''  YOUR_HF_API_TOKEN_HERE '')"
    by (simp add: no_credential_def hf_placeholder_def strip_def lstrip_def rstrip_def
        ws_len_def whitespace_def)
  have b: "no_credential openai_placeholder None"
    by (simp add: no_credential_def)
  have c: "strftime_ymd p \<lparr>year = 2023, month = 3, day = 5\<rparr> = ''2023-03-05''" for p
    by (simp add: strftime_ymd_def zfill_def show_nat.simps digit_char_def)
  show ?thesis
    using a b
      C8_fallback_without_backend [of "Some ''  YOUR_HF_API_TOKEN_HERE ''" False no_pipeline
        "''bitcoin''" "\<lparr>year = 2023, month = 3, day = 5\<rparr>" "''spiked''"
        "''United States''" no_client]
      C8_fallback_without_backend [of None True no_pipeline
        "''bitcoin''" "\<lparr>year = 2023, month = 3, day = 5\<rparr>" "''dropped''"
        "''United States''" no_client]
    by (simp add: c demo_explanation_def)
qed




text \<open>
  C10. For every series and every threshold greater than zero, every point
  that is flagged has the direction \<open>spiked\<close> or \<open>dropped\<close>, never none.
\<close>

theorem C10_flagged_has_direction:
  "fgt t (Num 0) \<Longrightarrow>
     \<forall>p \<in> set (compute_anomalies pad S t).
       is_anomaly p \<longrightarrow> direction p = Some ''spiked'' \<or> direction p = Some ''dropped''"
proof
  fix p assume t: "fgt t (Num 0)" and "p \<in> set (compute_anomalies pad S t)"
  then obtain r x where p: "p = annotate_row t r x"
    by (auto elim: in_compute_anomalies)
  show "is_anomaly p \<longrightarrow> direction p = Some ''spiked'' \<or> direction p = Some ''dropped''"
    using flagged_has_direction [OF t, of x] by (simp add: p annotate_row_def)
qed

theorem C10_flagged_has_direction_witness:
  "fgt (Num (3/10)) (Num 0) \<and>
   compute_anomalies True weekly_example (Num (3/10)) ! 4
     \<in> set (compute_anomalies True weekly_example (Num (3/10))) \<and>
   is_anomaly (compute_anomalies True weekly_example (Num (3/10)) ! 4) \<and>
   direction (compute_anomalies True weekly_example (Num (3/10)) ! 4) = Some ''dropped'' \<and>
   is_anomaly (compute_anomalies True weekly_example (Num (3/10)) ! 5) \<and>
   direction (compute_anomalies True weekly_example (Num (3/10)) ! 5) = Some ''spiked''"
proof -
  have t: "fgt (Num (3/10)) (Num 0)" by simp
  show ?thesis
    using t C10_flagged_has_direction [OF t, of True weekly_example]
    by (simp add: annot_defs weekly_example_def)
qed

end
